theory Spec2Isabelle
  imports Complex_Main "HOL-Library.Sublist"
begin

section \<open>Strings of the front end\<close>

text \<open>
  A source string is modelled as a \<^typ>\<open>string\<close>: one \<^typ>\<open>char\<close> stands for one
  code unit of the source string, restricted to the 8-bit range (ASCII and Latin-1 text).
  \<open>length\<close> is then the source's \<open>.length\<close>.
\<close>

text \<open>\<open>String.prototype.toLowerCase\<close> on that range: A-Z, and the Latin-1 capitals
  0xC0-0xDE without the multiplication sign 0xD7, move up by 32.\<close>

definition lowerChar :: "char \<Rightarrow> char" where
  "lowerChar c =
     (let n = (of_char c :: nat)
      in if (65 \<le> n \<and> n \<le> 90) \<or> (192 \<le> n \<and> n \<le> 222 \<and> n \<noteq> 215)
         then char_of (n + 32) else c)"

definition toLowerCase :: "string \<Rightarrow> string" where
  "toLowerCase s = map lowerChar s"

text \<open>\<open>s.startsWith(t)\<close> and \<open>s.includes(t)\<close>, by a scan from the left.\<close>

fun startsWith :: "string \<Rightarrow> string \<Rightarrow> bool" where
  "startsWith s [] = True"
| "startsWith [] (c # t) = False"
| "startsWith (d # s) (c # t) = (d = c \<and> startsWith s t)"

fun includes_str :: "string \<Rightarrow> string \<Rightarrow> bool" where
  "includes_str [] t = (t = [])"
| "includes_str (d # s) t = (startsWith (d # s) t \<or> includes_str s t)"

section \<open>Entity classifier (KnowledgeGraph.tsx, getNodeType)\<close>

datatype node_type = Law | Section | Case | Concept

definition getNodeType :: "string \<Rightarrow> node_type" where
  "getNodeType label =
     (let lower = toLowerCase label
      in if includes_str lower ''act'' \<or> includes_str lower ''code'' \<or> includes_str lower ''bns''
            \<or> includes_str lower ''constitution'' \<or> includes_str lower ''bharatiya'' then Law
         else if includes_str lower ''section'' \<or> includes_str lower ''article''
            \<or> includes_str lower ''order'' \<or> includes_str lower ''rule'' \<or> includes_str lower ''part''
         then Section
         else if includes_str lower '' v. '' \<or> includes_str lower '' vs '' then Case
         else Concept)"

text \<open>The marker lists of the three rules, in the order of the source.\<close>

definition law_markers :: "string list" where
  "law_markers = [''act'', ''code'', ''bns'', ''constitution'', ''bharatiya'']"

definition section_markers :: "string list" where
  "section_markers = [''section'', ''article'', ''order'', ''rule'', ''part'']"

definition case_markers :: "string list" where
  "case_markers = ['' v. '', '' vs '']"

text \<open>A label contains a marker case-insensitively when the marker is a contiguous
  part of the lower-cased label.\<close>

definition has_marker :: "string list \<Rightarrow> string \<Rightarrow> bool" where
  "has_marker ms label = (\<exists>m \<in> set ms. sublist m (toLowerCase label))"

section \<open>Citation resolver (getProcessedText of DraftingPanel.tsx and DraftEditor)\<close>

record Citation =
  uuid :: string
  text_c :: string
  source_doc :: string
  page_number :: int
  law_type :: string
  score :: real
  entity_name :: "string option"
  summary :: string

text \<open>
  \<open>uniqueMap\<close> is a JavaScript \<open>Map\<close>: its keys are kept in insertion order, so it is
  an association list that grows at the end. \<open>c.entity_name && !uniqueMap.has(..)\<close>:
  a missing name and the empty string are both falsy.
\<close>

definition uniqueMap_set :: "(string \<times> string) list \<Rightarrow> Citation \<Rightarrow> (string \<times> string) list" where
  "uniqueMap_set m c =
     (case entity_name c of
        None \<Rightarrow> m
      | Some n \<Rightarrow> if n \<noteq> [] \<and> map_of m n = None then m @ [(n, uuid c)] else m)"

definition uniqueMap :: "Citation list \<Rightarrow> (string \<times> string) list" where
  "uniqueMap citations = foldl uniqueMap_set [] citations"

text \<open>\<open>Array.from(uniqueMap.keys()).sort((a, b) => b.length - a.length)\<close>: a stable
  sort, longest name first.\<close>

definition entities :: "Citation list \<Rightarrow> string list" where
  "entities citations = sort_key (\<lambda>a. - int (length a)) (map fst (uniqueMap citations))"

text \<open>\<open>escapeRegExp\<close>: a backslash before each of \<open>. * + ? ^ $ { } ( ) | [ ] \\<close>.\<close>

definition regexSpecial :: "char \<Rightarrow> bool" where
  "regexSpecial c = (c \<in> set ''.*+?^${}()|[]'' \<or> c = CHR 0x5C)"

definition escapeRegExp :: "string \<Rightarrow> string" where
  "escapeRegExp s = concat (map (\<lambda>c. if regexSpecial c then [CHR 0x5C, c] else [c]) s)"

text \<open>The text that the pattern \<open>\b(\<close> \<open>escapeRegExp entity\<close> \<open>)\b\<close> matches between its
  two word boundaries: an escaped character stands for itself.\<close>

fun patternLiteral :: "string \<Rightarrow> string" where
  "patternLiteral [] = []"
| "patternLiteral [c] = [c]"
| "patternLiteral (c # d # s) =
     (if c = CHR 0x5C then d # patternLiteral s else c # patternLiteral (d # s))"

text \<open>\<open>\b\<close>: exactly one of the two neighbouring positions holds a word character
  (letter, digit or underscore); a position outside the string holds none.\<close>

definition isWordChar :: "char \<Rightarrow> bool" where
  "isWordChar c =
     (let n = (of_char c :: nat)
      in (48 \<le> n \<and> n \<le> 57) \<or> (65 \<le> n \<and> n \<le> 90) \<or> n = 95 \<or> (97 \<le> n \<and> n \<le> 122))"

definition wordBoundary :: "string \<Rightarrow> string \<Rightarrow> bool" where
  "wordBoundary pre post =
     ((pre \<noteq> [] \<and> isWordChar (last pre)) \<noteq> (post \<noteq> [] \<and> isWordChar (hd post)))"

definition matchesAt :: "string \<Rightarrow> string \<Rightarrow> string \<Rightarrow> bool" where
  "matchesAt lit pre rest =
     (wordBoundary pre rest \<and> startsWith rest lit
      \<and> wordBoundary (pre @ lit) (drop (length lit) rest))"

text \<open>
  The replacement text of \<open>String.prototype.replace\<close> for one match (GetSubstitution of
  the language standard) when the pattern has the single group 1, which here is the whole
  match \<open>m\<close>: \<open>$$\<close> is a dollar, \<open>$&\<close>, \<open>$1\<close> and \<open>$01\<close> are the match, a dollar and a
  backquote is the text before the match, a dollar and a quote the text after it, and any
  other dollar stands for itself.
\<close>

fun getSubstitution :: "string \<Rightarrow> string \<Rightarrow> string \<Rightarrow> string \<Rightarrow> string" where
  "getSubstitution m pre post [] = []"
| "getSubstitution m pre post [c] = [c]"
| "getSubstitution m pre post (c # d # t) =
     (if c \<noteq> CHR ''$'' then c # getSubstitution m pre post (d # t)
      else if d = CHR ''$'' then CHR ''$'' # getSubstitution m pre post t
      else if d = CHR ''&'' then m @ getSubstitution m pre post t
      else if d = CHR 0x60 then pre @ getSubstitution m pre post t
      else if d = CHR 0x27 then post @ getSubstitution m pre post t
      else if d = CHR ''1'' then m @ getSubstitution m pre post t
      else if d = CHR ''0'' \<and> t \<noteq> [] \<and> hd t = CHR ''1''
        then m @ getSubstitution m pre post (tl t)
      else c # getSubstitution m pre post (d # t))"

text \<open>
  \<open>text.replace(regex, template)\<close> with the global flag: the scan goes from left to
  right; a match is replaced and the scan goes on behind it, otherwise one character is
  copied. (After an empty match the standard advances by one character.)
\<close>

function replaceRegex :: "string \<Rightarrow> string \<Rightarrow> string \<Rightarrow> string \<Rightarrow> string" where
  "replaceRegex lit template pre rest =
     (if matchesAt lit pre rest then
        getSubstitution lit pre (drop (length lit) rest) template @
          (if lit = [] then
             (case rest of [] \<Rightarrow> []
              | c # cs \<Rightarrow> c # replaceRegex lit template (pre @ [c]) cs)
           else replaceRegex lit template (pre @ lit) (drop (length lit) rest))
      else (case rest of [] \<Rightarrow> []
            | c # cs \<Rightarrow> c # replaceRegex lit template (pre @ [c]) cs))"
  by pat_completeness auto
termination
proof (relation "measure (\<lambda>(lit, template, pre, rest). length rest)")
  fix lit template pre rest :: string
  assume "matchesAt lit pre rest" and "lit \<noteq> []"
  then have "rest \<noteq> []"
    by (cases rest; cases lit) (auto simp: matchesAt_def)
  with \<open>lit \<noteq> []\<close>
  show "((lit, template, pre @ lit, drop (length lit) rest), lit, template, pre, rest)
        \<in> measure (\<lambda>(lit, template, pre, rest). length rest)"
    by simp
qed auto

text \<open>One round of the \<open>entities.forEach\<close> loop. A key that the map does not hold would
  be interpolated as the text \<open>undefined\<close>.\<close>

definition linkEntity :: "(string \<times> string) list \<Rightarrow> string \<Rightarrow> string \<Rightarrow> string" where
  "linkEntity m txt entity =
     (let uuid = (case map_of m entity of Some u \<Rightarrow> u | None \<Rightarrow> ''undefined'')
      in replaceRegex (patternLiteral (escapeRegExp entity)) (''[$1]('' @ uuid @ '')'') [] txt)"

definition getProcessedText :: "string \<Rightarrow> Citation list \<Rightarrow> string" where
  "getProcessedText draft citations =
     (if draft = [] then []
      else foldl (linkEntity (uniqueMap citations)) draft (entities citations))"

section \<open>Graph model (KnowledgeGraph.tsx, graphData)\<close>

text \<open>
  The payload arrives as parsed JSON, so a field that the interface declares can still be
  absent: \<open>None\<close> is the source's \<open>undefined\<close> (or \<open>null\<close>). The payload's own
  \<open>type\<close> and \<open>stats\<close> are never read by the component and are left out.
\<close>

record Metadata =
  tooltip :: "string option"
  is_cited :: "bool option"

record GraphNode =
  node_id :: "string option"
  label :: "string option"
  citation_uuid :: "string option"
  x_pos :: "real option"
  y_pos :: "real option"
  metadata :: "Metadata option"

record GraphEdge =
  source :: string
  target :: string
  relation :: string
  edge_label :: "string option"

record GraphData =
  nodes :: "GraphNode list"
  edges :: "GraphEdge list"

text \<open>The objects handed to the drawing library: \<open>graphData.nodes\<close> and
  \<open>graphData.links\<close>.\<close>

record RenderNode =
  nodeId :: "string option"
  name :: string
  nodeType :: node_type
  citationUuid :: "string option"
  nodeTooltip :: "string option"
  isCited :: "bool option"

record RenderLink =
  link_source :: string
  link_target :: string
  link_label :: string

record Snapshot =
  snap_nodes :: "RenderNode list"
  links :: "RenderLink list"

datatype js_error = TypeError

text \<open>One node of \<open>data.nodes.map(..)\<close>. \<open>getNodeType(node.label)\<close> calls
  \<open>toLowerCase\<close> on the label, which throws a TypeError when the label is absent.\<close>

definition buildNode :: "GraphNode \<Rightarrow> js_error + RenderNode" where
  "buildNode node =
     (case label node of
        None \<Rightarrow> Inl TypeError
      | Some l \<Rightarrow>
          Inr \<lparr>nodeId = node_id node, name = l, nodeType = getNodeType l,
               citationUuid = citation_uuid node,
               nodeTooltip = (case metadata node of None \<Rightarrow> None | Some md \<Rightarrow> tooltip md),
               isCited = (case metadata node of None \<Rightarrow> None | Some md \<Rightarrow> is_cited md)\<rparr>)"

fun buildNodes :: "GraphNode list \<Rightarrow> js_error + RenderNode list" where
  "buildNodes [] = Inr []"
| "buildNodes (node # rest) =
     (case buildNode node of
        Inl e \<Rightarrow> Inl e
      | Inr n \<Rightarrow> (case buildNodes rest of Inl e \<Rightarrow> Inl e | Inr ns \<Rightarrow> Inr (n # ns)))"

text \<open>One edge of \<open>data.edges.map(..)\<close>; \<open>edge.label || edge.relation\<close> takes the
  relation when the label is absent or empty.\<close>

definition buildLink :: "GraphEdge \<Rightarrow> RenderLink" where
  "buildLink edge =
     \<lparr>link_source = source edge, link_target = target edge,
      link_label = (case edge_label edge of
                      None \<Rightarrow> relation edge
                    | Some l \<Rightarrow> if l \<noteq> [] then l else relation edge)\<rparr>"

definition graphData :: "GraphData \<Rightarrow> js_error + Snapshot" where
  "graphData data =
     (case buildNodes (nodes data) of
        Inl e \<Rightarrow> Inl e
      | Inr ns \<Rightarrow> Inr \<lparr>snap_nodes = ns, links = map buildLink (edges data)\<rparr>)"

section \<open>Payload loader (page.tsx, handleSubmit)\<close>

datatype ChatMessage =
    UserMessage string
  | AssistantMessage string "Citation list option"

record AskRequest =
  req_query :: string
  include_graph_data :: bool
  req_language :: string
  input_language :: string

record AskResponse =
  answer :: string
  citations :: "Citation list option"
  graph_data :: "GraphData option"

text \<open>What the awaited \<open>fetch\<close> and \<open>response.json()\<close> give: the parsed body, or a
  rejection that the \<open>catch\<close> block handles.\<close>

datatype FetchResult = Rejected | Replied AskResponse

text \<open>The state of the page that \<open>handleSubmit\<close> reads or writes; it touches no
  other state of the page (tab, regime, highlighted node, draft).\<close>

record PageState =
  query :: string
  language :: string
  inputLanguageState :: string
  chatMessages :: "ChatMessage list"
  isLoading :: bool
  currentGraph :: "GraphData option"

definition isWhiteSpace :: "char \<Rightarrow> bool" where
  "isWhiteSpace c = ((of_char c :: nat) \<in> {9, 10, 11, 12, 13, 32, 160})"

definition trim :: "string \<Rightarrow> string" where
  "trim s = rev (dropWhile isWhiteSpace (rev (dropWhile isWhiteSpace s)))"

text \<open>
  \<open>handleSubmit\<close> is an async function; it is split at its \<open>await\<close>.
  \<open>handleSubmit_send\<close> is the part that runs at once: the early return on a blank
  query, the state updates, and the body of the POST request to \<open>/ask\<close>.
  \<open>handleSubmit_receive\<close> is the part that runs when the reply of that request arrives;
  \<open>currentGraph\<close> is the \<open>graphData\<close> state of the page.
\<close>

definition handleSubmit_send :: "PageState \<Rightarrow> PageState \<times> AskRequest option" where
  "handleSubmit_send st =
     (if trim (query st) = [] then (st, None)
      else
        (st\<lparr>chatMessages := chatMessages st @ [UserMessage (query st)],
            query := [], isLoading := True\<rparr>,
         Some \<lparr>req_query = query st, include_graph_data = True,
               req_language = language st,
               input_language = (if inputLanguageState st = ''Native'' then language st
                                 else ''English'')\<rparr>))"

definition handleSubmit_receive :: "FetchResult \<Rightarrow> PageState \<Rightarrow> PageState" where
  "handleSubmit_receive r st =
     (case r of
        Replied data \<Rightarrow>
          st\<lparr>chatMessages := chatMessages st @ [AssistantMessage (answer data) (citations data)],
             currentGraph := (case graph_data data of
                                Some g \<Rightarrow> Some g
                              | None \<Rightarrow> currentGraph st),
             isLoading := False\<rparr>
      | Rejected \<Rightarrow>
          st\<lparr>chatMessages := chatMessages st @
               [AssistantMessage ''Sorry, I encountered an error processing your request.'' None],
             isLoading := False\<rparr>)"

text \<open>The replies that arrive, applied in their order of arrival.\<close>

definition receiveAll :: "FetchResult list \<Rightarrow> PageState \<Rightarrow> PageState" where
  "receiveAll rs st = foldl (\<lambda>s r. handleSubmit_receive r s) st rs"

text \<open>The payloads that a list of replies carries, in order.\<close>

fun payloads :: "FetchResult list \<Rightarrow> GraphData list" where
  "payloads [] = []"
| "payloads (Rejected # rs) = payloads rs"
| "payloads (Replied data # rs) =
     (case graph_data data of None \<Rightarrow> payloads rs | Some g \<Rightarrow> g # payloads rs)"

section \<open>Focus (KnowledgeGraph.tsx, the auto-focus effect)\<close>

text \<open>
  \<open>fgRef.current\<close> is the handle of the drawing library, or nothing before it is mounted.
  The handle is modelled by the calls it has received so far: \<open>centerAt(x, y, ms)\<close> and
  \<open>zoom(k, ms)\<close>.
\<close>

datatype camera_call =
    CenterAt "real option" "real option" nat
  | Zoom real nat

definition autoFocus ::
  "string option \<Rightarrow> GraphData \<Rightarrow> camera_call list option \<Rightarrow> camera_call list option" where
  "autoFocus focusedNodeId data fgRef =
     (case focusedNodeId of
        None \<Rightarrow> fgRef
      | Some f \<Rightarrow>
          (case fgRef of
             None \<Rightarrow> fgRef
           | Some calls \<Rightarrow>
               if f = [] then fgRef
               else (case find (\<lambda>n. node_id n = Some f) (nodes data) of
                       None \<Rightarrow> fgRef
                     | Some node \<Rightarrow>
                         Some (calls @ [CenterAt (x_pos node) (y_pos node) 1000,
                                        Zoom 6 2000]))))"

text \<open>
  The viewport state machine in the words of the specification (section 4.5), for
  comparison with \<open>autoFocus\<close>: a focus request on a node that is present enters
  \<open>Centering\<close> and starts the centering animation only; the completion of that animation
  enters \<open>Zooming\<close> and starts the zoom; its completion returns to \<open>Idle\<close>.
\<close>

datatype viewport_phase = Idle | Centering | Zooming

record spec_viewport =
  phase :: viewport_phase
  started :: "camera_call list"

definition spec_focus :: "string \<Rightarrow> GraphData \<Rightarrow> spec_viewport \<Rightarrow> spec_viewport" where
  "spec_focus f data v =
     (case find (\<lambda>n. citation_uuid n = Some f \<or> node_id n = Some f) (nodes data) of
        None \<Rightarrow> v
      | Some node \<Rightarrow>
          \<lparr>phase = Centering,
           started = started v @ [CenterAt (x_pos node) (y_pos node) 1000]\<rparr>)"

definition spec_animation_done :: "spec_viewport \<Rightarrow> spec_viewport" where
  "spec_animation_done v =
     (case phase v of
        Idle \<Rightarrow> v
      | Centering \<Rightarrow> \<lparr>phase = Zooming, started = started v @ [Zoom 6 2000]\<rparr>
      | Zooming \<Rightarrow> v\<lparr>phase := Idle\<rparr>)"

section \<open>Render engine (KnowledgeGraph.tsx, nodeCanvasObject and the handlers)\<close>

text \<open>\<open>handleNodeHover\<close>: the new value of the \<open>hoveredNode\<close> state.\<close>

definition handleNodeHover :: "RenderNode option \<Rightarrow> string option" where
  "handleNodeHover node = (case node of None \<Rightarrow> None | Some n \<Rightarrow> nodeId n)"

text \<open>The test \<open>hoveredNode && hoveredNode === node.id\<close>.\<close>

definition isHovered :: "string option \<Rightarrow> RenderNode \<Rightarrow> bool" where
  "isHovered hoveredNode node =
     (case hoveredNode of None \<Rightarrow> False | Some h \<Rightarrow> h \<noteq> [] \<and> nodeId node = Some h)"

text \<open>The value of \<open>baseOpacity\<close>, which is also \<open>ctx.globalAlpha\<close>, when the node's
  circle is filled.\<close>

definition nodeOpacity :: "string option \<Rightarrow> string option \<Rightarrow> RenderNode \<Rightarrow> real" where
  "nodeOpacity regimeMode hoveredNode node =
     (let baseOpacity =
        (case regimeMode of
           None \<Rightarrow> 1
         | Some mode \<Rightarrow>
             if mode \<noteq> [] \<and> mode \<noteq> ''Compare'' then
               (let isIPC = includes_str (name node) ''IPC'';
                    isBNS = (includes_str (name node) ''BNS''
                             \<or> includes_str (name node) ''Bharatiya'')
                in if mode = ''IPC'' \<and> isBNS then 0.1
                   else if mode = ''BNS'' \<and> isIPC then 0.1
                   else 1)
             else 1)
      in if isHovered hoveredNode node then 1 else baseOpacity)"

section \<open>Shared store (appStore) and the click handler\<close>

text \<open>The store has the one field \<open>activeNodeId\<close>; \<open>set({activeNodeId: id})\<close> merges,
  so whatever else a store holds (the extension of the record) stays as it is.\<close>

record AppState =
  activeNodeId :: "string option"

definition setActiveNodeId :: "string option \<Rightarrow> 'a AppState_scheme \<Rightarrow> 'a AppState_scheme" where
  "setActiveNodeId i st = st\<lparr>activeNodeId := i\<rparr>"

definition handleNodeClick :: "RenderNode \<Rightarrow> 'a AppState_scheme \<Rightarrow> 'a AppState_scheme" where
  "handleNodeClick node st =
     (case citationUuid node of
        None \<Rightarrow> st
      | Some u \<Rightarrow> if u \<noteq> [] then setActiveNodeId (Some u) st else st)"

section \<open>Lemmas on strings\<close>

lemma startsWith_prefix: "startsWith s t = prefix t s"
  by (induction s t rule: startsWith.induct) auto

lemma includes_sublist: "includes_str s t = sublist t s"
  by (induction s) (auto simp: startsWith_prefix sublist_Cons_right)

section \<open>The classifier\<close>

text \<open>
  Claim C7. getNodeType is a total function of the label alone; its three rules are
  tried in the fixed order law, section, case, the first that matches decides, and each
  rule is a substring test on the lower-cased label. A label with a law marker is a law;
  without one but with a subdivision marker it is a section; with neither but with one of
  the separators " v. " and " vs " it is a case; a label with none of the markers is a
  concept.
\<close>

theorem getNodeType_first_match:
  "(has_marker law_markers lbl \<longrightarrow> getNodeType lbl = Law) \<and>
   (\<not> has_marker law_markers lbl \<and> has_marker section_markers lbl
      \<longrightarrow> getNodeType lbl = Section) \<and>
   (\<not> has_marker law_markers lbl \<and> \<not> has_marker section_markers lbl
      \<and> sublist '' v. '' (toLowerCase lbl) \<longrightarrow> getNodeType lbl = Case) \<and>
   (\<not> has_marker law_markers lbl \<and> \<not> has_marker section_markers lbl
      \<and> has_marker case_markers lbl \<longrightarrow> getNodeType lbl = Case) \<and>
   (\<not> has_marker law_markers lbl \<and> \<not> has_marker section_markers lbl
      \<and> \<not> has_marker case_markers lbl \<longrightarrow> getNodeType lbl = Concept)"
  unfolding has_marker_def law_markers_def section_markers_def case_markers_def
    getNodeType_def Let_def includes_sublist
  by simp

theorem getNodeType_first_match_witness:
  "getNodeType ''Indian Penal Code'' = Law \<and>
   getNodeType ''Article 21'' = Section \<and>
   getNodeType ''State v. Kumar'' = Case \<and>
   getNodeType ''Mens rea'' = Concept"
proof -
  have 1: "has_marker law_markers ''Indian Penal Code''"
    by code_simp
  have 2: "\<not> has_marker law_markers ''Article 21'' \<and> has_marker section_markers ''Article 21''"
    by code_simp
  have 3: "\<not> has_marker law_markers ''State v. Kumar''
      \<and> \<not> has_marker section_markers ''State v. Kumar''
      \<and> sublist '' v. '' (toLowerCase ''State v. Kumar'')"
    by code_simp
  have 4: "\<not> has_marker law_markers ''Mens rea''
      \<and> \<not> has_marker section_markers ''Mens rea''
      \<and> \<not> has_marker case_markers ''Mens rea''"
    by code_simp
  have a: "getNodeType ''Indian Penal Code'' = Law"
    using 1 getNodeType_first_match [of "''Indian Penal Code''"] by simp
  have b: "getNodeType ''Article 21'' = Section"
    using 2 getNodeType_first_match [of "''Article 21''"] by simp
  have c: "getNodeType ''State v. Kumar'' = Case"
    using 3 getNodeType_first_match [of "''State v. Kumar''"] by simp
  have d: "getNodeType ''Mens rea'' = Concept"
    using 4 getNodeType_first_match [of "''Mens rea''"] by simp
  show ?thesis
    using a b c d by simp
qed

section \<open>The entity map\<close>

lemma map_of_uniqueMap_set:
  "map_of (uniqueMap_set m c) n =
     (case map_of m n of
        Some u \<Rightarrow> Some u
      | None \<Rightarrow> if n \<noteq> [] \<and> entity_name c = Some n then Some (uuid c) else None)"
  by (auto simp: uniqueMap_set_def map_add_def split: option.splits)

lemma map_of_foldl_uniqueMap_set:
  "map_of (foldl uniqueMap_set m cs) n =
     (case map_of m n of
        Some u \<Rightarrow> Some u
      | None \<Rightarrow> if n = [] then None
                else map_option uuid (find (\<lambda>c. entity_name c = Some n) cs))"
proof (induction cs arbitrary: m)
  case Nil
  then show ?case by (simp split: option.splits)
next
  case (Cons c cs)
  show ?case
    by (simp add: Cons.IH map_of_uniqueMap_set split: option.splits)
qed

lemma distinct_uniqueMap_set:
  "distinct (map fst m) \<Longrightarrow> distinct (map fst (uniqueMap_set m c))"
  by (auto simp: uniqueMap_set_def map_of_eq_None_iff split: option.splits)

lemma distinct_foldl_uniqueMap_set:
  "distinct (map fst m) \<Longrightarrow> distinct (map fst (foldl uniqueMap_set m cs))"
  by (induction cs arbitrary: m) (simp_all add: distinct_uniqueMap_set)

text \<open>
  Claim C9. For every citation list the built entity map holds each name at most once,
  and looking a name up gives the uuid of the first citation, in input order, that carries
  this name (nothing for the empty name, which is never inserted): a later citation with
  the same name does not change the entry.
\<close>

theorem uniqueMap_first_wins:
  "distinct (map fst (uniqueMap cs)) \<and>
   map_of (uniqueMap cs) n =
     (if n = [] then None else map_option uuid (find (\<lambda>c. entity_name c = Some n) cs))"
  by (simp add: uniqueMap_def distinct_foldl_uniqueMap_set map_of_foldl_uniqueMap_set)

theorem uniqueMap_first_wins_witness:
  "distinct (map fst (uniqueMap
     [\<lparr>uuid = ''u1'', text_c = ''t1'', source_doc = ''d1'', page_number = 1,
       law_type = ''IPC'', score = 1, entity_name = Some ''Act'', summary = ''s1''\<rparr>,
      \<lparr>uuid = ''u2'', text_c = ''t2'', source_doc = ''d2'', page_number = 2,
       law_type = ''BNS'', score = 1, entity_name = Some ''Act'', summary = ''s2''\<rparr>,
      \<lparr>uuid = ''u3'', text_c = ''t3'', source_doc = ''d3'', page_number = 3,
       law_type = ''BNS'', score = 1, entity_name = None, summary = ''s3''\<rparr>]))
   \<and> map_of (uniqueMap
     [\<lparr>uuid = ''u1'', text_c = ''t1'', source_doc = ''d1'', page_number = 1,
       law_type = ''IPC'', score = 1, entity_name = Some ''Act'', summary = ''s1''\<rparr>,
      \<lparr>uuid = ''u2'', text_c = ''t2'', source_doc = ''d2'', page_number = 2,
       law_type = ''BNS'', score = 1, entity_name = Some ''Act'', summary = ''s2''\<rparr>,
      \<lparr>uuid = ''u3'', text_c = ''t3'', source_doc = ''d3'', page_number = 3,
       law_type = ''BNS'', score = 1, entity_name = None, summary = ''s3''\<rparr>]) ''Act''
     = Some ''u1''"
  using uniqueMap_first_wins
    [of "[\<lparr>uuid = ''u1'', text_c = ''t1'', source_doc = ''d1'', page_number = 1,
       law_type = ''IPC'', score = 1, entity_name = Some ''Act'', summary = ''s1''\<rparr>,
      \<lparr>uuid = ''u2'', text_c = ''t2'', source_doc = ''d2'', page_number = 2,
       law_type = ''BNS'', score = 1, entity_name = Some ''Act'', summary = ''s2''\<rparr>,
      \<lparr>uuid = ''u3'', text_c = ''t3'', source_doc = ''d3'', page_number = 3,
       law_type = ''BNS'', score = 1, entity_name = None, summary = ''s3''\<rparr>]" "''Act''"]
  by simp

section \<open>The citation resolver on the scenario of the specification\<close>

lemma escapeRegExp_Cons:
  "escapeRegExp (c # s) = (if regexSpecial c then [CHR 0x5C, c] else [c]) @ escapeRegExp s"
  by (simp add: escapeRegExp_def)

lemma patternLiteral_escapeRegExp: "patternLiteral (escapeRegExp s) = s"
proof (induction s)
  case Nil
  then show ?case by (simp add: escapeRegExp_def)
next
  case (Cons c s)
  show ?case
  proof (cases "regexSpecial c")
    case True
    then show ?thesis using Cons.IH by (simp add: escapeRegExp_Cons)
  next
    case False
    then have nb: "c \<noteq> CHR 0x5C" by (auto simp: regexSpecial_def)
    show ?thesis
    proof (cases "escapeRegExp s")
      case Nil
      with Cons.IH have "s = []" by simp
      with Nil False show ?thesis by (simp add: escapeRegExp_Cons)
    next
      case (Cons d t)
      with Cons.IH have "patternLiteral (d # t) = s" by simp
      with Cons False nb show ?thesis by (simp add: escapeRegExp_Cons)
    qed
  qed
qed

text \<open>
  Claim C1, as amended. On the scenario the resolver links the long phrase to u1 and
  the standalone trailing word to u2, and it also links the word Act inside the label of
  the span it has just inserted: the second round of the loop runs on the already
  rewritten text, where that word stands between a space and a closing bracket.
\<close>

theorem getProcessedText_scenario:
  "getProcessedText ''Under the Indian Contract Act, the Act applies.''
     [\<lparr>uuid = ''u1'', text_c = ''t1'', source_doc = ''d1'', page_number = 1,
       law_type = ''IPC'', score = 1, entity_name = Some ''Indian Contract Act'',
       summary = ''s1''\<rparr>,
      \<lparr>uuid = ''u2'', text_c = ''t2'', source_doc = ''d2'', page_number = 2,
       law_type = ''IPC'', score = 1, entity_name = Some ''Act'', summary = ''s2''\<rparr>]
   = ''Under the [Indian Contract [Act](u2)](u1), the [Act](u2) applies.''"
  by code_simp

text \<open>
  Claim C1, as stated, fails: the output does not contain the span
  \<open>[Indian Contract Act](u1)\<close>, because a link to u2 stands inside its label.
\<close>

theorem getProcessedText_scenario_relinks:
  "\<not> includes_str
       (getProcessedText ''Under the Indian Contract Act, the Act applies.''
          [\<lparr>uuid = ''u1'', text_c = ''t1'', source_doc = ''d1'', page_number = 1,
            law_type = ''IPC'', score = 1, entity_name = Some ''Indian Contract Act'',
            summary = ''s1''\<rparr>,
           \<lparr>uuid = ''u2'', text_c = ''t2'', source_doc = ''d2'', page_number = 2,
            law_type = ''IPC'', score = 1, entity_name = Some ''Act'', summary = ''s2''\<rparr>])
       ''[Indian Contract Act](u1)''
   \<and> includes_str
       (getProcessedText ''Under the Indian Contract Act, the Act applies.''
          [\<lparr>uuid = ''u1'', text_c = ''t1'', source_doc = ''d1'', page_number = 1,
            law_type = ''IPC'', score = 1, entity_name = Some ''Indian Contract Act'',
            summary = ''s1''\<rparr>,
           \<lparr>uuid = ''u2'', text_c = ''t2'', source_doc = ''d2'', page_number = 2,
            law_type = ''IPC'', score = 1, entity_name = Some ''Act'', summary = ''s2''\<rparr>])
       ''[Indian Contract [Act](u2)](u1)''"
  by code_simp

section \<open>The graph model\<close>

lemma buildNodes_Inr:
  "buildNodes ns = Inr rs \<Longrightarrow> map nodeId rs = map node_id ns"
proof (induction ns arbitrary: rs)
  case Nil
  then show ?case by simp
next
  case (Cons n ns)
  then show ?case
    by (auto simp: buildNode_def split: sum.splits option.splits)
qed

lemma buildNodes_labelled:
  "\<forall>n \<in> set ns. label n \<noteq> None \<Longrightarrow> \<exists>rs. buildNodes ns = Inr rs"
proof (induction ns)
  case Nil
  then show ?case by simp
next
  case (Cons n ns)
  then obtain rs where "buildNodes ns = Inr rs" by auto
  moreover from Cons.prems obtain l where "label n = Some l" by auto
  ultimately show ?case by (simp add: buildNode_def)
qed

lemma buildNodes_unlabelled:
  "\<exists>n \<in> set ns. label n = None \<Longrightarrow> buildNodes ns = Inl TypeError"
proof (induction ns)
  case Nil
  then show ?case by simp
next
  case (Cons n ns)
  show ?case
  proof (cases "label n")
    case None
    then show ?thesis by (simp add: buildNode_def)
  next
    case (Some l)
    with Cons.prems have "\<exists>n \<in> set ns. label n = None" by auto
    then have "buildNodes ns = Inl TypeError" by (rule Cons.IH)
    with Some show ?thesis by (simp add: buildNode_def)
  qed
qed

lemma graphData_missing_label:
  "\<exists>n \<in> set (nodes data). label n = None \<Longrightarrow> graphData data = Inl TypeError"
  by (simp add: graphData_def buildNodes_unlabelled)

text \<open>
  Claim C2, as amended. Every edge of the payload is in the built snapshot, in payload
  order and with its source and target unchanged, whether or not these are ids of payload
  nodes: the build has no endpoint check, drops no edge and counts none, and whether it
  succeeds does not depend on the edges at all.
\<close>

theorem graphData_keeps_every_edge:
  assumes "graphData data = Inr g"
  shows "map (\<lambda>l. (link_source l, link_target l)) (links g)
           = map (\<lambda>e. (source e, target e)) (edges data)
         \<and> graphData (data\<lparr>edges := es\<rparr>) = Inr (g\<lparr>links := map buildLink es\<rparr>)"
  using assms by (auto simp: graphData_def buildLink_def split: sum.splits)

theorem graphData_keeps_every_edge_witness:
  "map (\<lambda>l. (link_source l, link_target l))
     [\<lparr>link_source = ''n1'', link_target = ''n2'', link_label = ''EQUIVALENT_TO''\<rparr>]
     = [(''n1'', ''n2'')]
   \<and> graphData
     \<lparr>nodes = [\<lparr>node_id = Some ''n1'', label = Some ''IPC 302'', citation_uuid = None,
                 x_pos = None, y_pos = None, metadata = None\<rparr>,
                \<lparr>node_id = Some ''n2'', label = Some ''BNS 103'', citation_uuid = None,
                 x_pos = None, y_pos = None, metadata = None\<rparr>],
      edges = []\<rparr>
   = Inr \<lparr>snap_nodes = [\<lparr>nodeId = Some ''n1'', name = ''IPC 302'', nodeType = Concept,
                           citationUuid = None, nodeTooltip = None, isCited = None\<rparr>,
                          \<lparr>nodeId = Some ''n2'', name = ''BNS 103'', nodeType = Law,
                           citationUuid = None, nodeTooltip = None, isCited = None\<rparr>],
          links = []\<rparr>"
proof -
  have t: "getNodeType ''IPC 302'' = Concept" "getNodeType ''BNS 103'' = Law"
    by code_simp+
  have b: "graphData
     \<lparr>nodes = [\<lparr>node_id = Some ''n1'', label = Some ''IPC 302'', citation_uuid = None,
                 x_pos = None, y_pos = None, metadata = None\<rparr>,
                \<lparr>node_id = Some ''n2'', label = Some ''BNS 103'', citation_uuid = None,
                 x_pos = None, y_pos = None, metadata = None\<rparr>],
      edges = [\<lparr>source = ''n1'', target = ''n2'', relation = ''EQUIVALENT_TO'',
                 edge_label = Some []\<rparr>]\<rparr>
   = Inr \<lparr>snap_nodes = [\<lparr>nodeId = Some ''n1'', name = ''IPC 302'', nodeType = Concept,
                           citationUuid = None, nodeTooltip = None, isCited = None\<rparr>,
                          \<lparr>nodeId = Some ''n2'', name = ''BNS 103'', nodeType = Law,
                           citationUuid = None, nodeTooltip = None, isCited = None\<rparr>],
          links = [\<lparr>link_source = ''n1'', link_target = ''n2'',
                     link_label = ''EQUIVALENT_TO''\<rparr>]\<rparr>"
    by (simp add: graphData_def buildNode_def buildLink_def t)
  show ?thesis
    using graphData_keeps_every_edge [OF b, of "[]"] by simp
qed

text \<open>
  Claim C2, as stated, fails: the edge from n1 to the id ghost, which no node of the
  payload has, is in the built snapshot.
\<close>

theorem graphData_dangling_edge_kept:
  "graphData
     \<lparr>nodes = [\<lparr>node_id = Some ''n1'', label = Some ''IPC 302'', citation_uuid = None,
                 x_pos = None, y_pos = None, metadata = None\<rparr>],
      edges = [\<lparr>source = ''n1'', target = ''ghost'', relation = ''CITES'',
                 edge_label = None\<rparr>]\<rparr>
   = Inr \<lparr>snap_nodes = [\<lparr>nodeId = Some ''n1'', name = ''IPC 302'', nodeType = Concept,
                           citationUuid = None, nodeTooltip = None, isCited = None\<rparr>],
          links = [\<lparr>link_source = ''n1'', link_target = ''ghost'', link_label = ''CITES''\<rparr>]\<rparr>
   \<and> Some ''ghost'' \<notin> set (map node_id
        [\<lparr>node_id = Some ''n1'', label = Some ''IPC 302'', citation_uuid = None,
          x_pos = None, y_pos = None, metadata = None\<rparr>])"
proof -
  have t: "getNodeType ''IPC 302'' = Concept" by code_simp
  show ?thesis
    by (simp add: graphData_def buildNode_def buildLink_def t)
qed

text \<open>
  Claim C3, as amended. Nothing validates a payload. The loader stores every payload
  that a reply carries as the current graph data, in place of the previous one, whatever
  its nodes look like. The build of a payload with a node that has no label raises a
  TypeError and yields no snapshot; the build of a payload whose nodes all carry a label
  succeeds with one rendered node per payload node, whose id is the payload's, also when
  that id is missing.
\<close>

theorem graphData_without_validation:
  "currentGraph
     (handleSubmit_receive
        (Replied \<lparr>answer = a, citations = cs, graph_data = Some data\<rparr>) st)
     = Some data
   \<and> ((\<exists>n \<in> set (nodes data). label n = None) \<longrightarrow> graphData data = Inl TypeError)
   \<and> ((\<forall>n \<in> set (nodes data). label n \<noteq> None) \<longrightarrow>
        (\<exists>g. graphData data = Inr g
             \<and> map nodeId (snap_nodes g) = map node_id (nodes data)))"
proof (intro conjI impI)
  show "currentGraph
     (handleSubmit_receive
        (Replied \<lparr>answer = a, citations = cs, graph_data = Some data\<rparr>) st)
     = Some data"
    by (simp add: handleSubmit_receive_def)
next
  assume "\<exists>n \<in> set (nodes data). label n = None"
  then show "graphData data = Inl TypeError"
    by (simp add: graphData_def buildNodes_unlabelled)
next
  assume "\<forall>n \<in> set (nodes data). label n \<noteq> None"
  then obtain rs where rs: "buildNodes (nodes data) = Inr rs"
    using buildNodes_labelled by blast
  then have "map nodeId rs = map node_id (nodes data)"
    by (rule buildNodes_Inr)
  with rs show "\<exists>g. graphData data = Inr g
      \<and> map nodeId (snap_nodes g) = map node_id (nodes data)"
    by (simp add: graphData_def)
qed

theorem graphData_without_validation_witness:
  "currentGraph
     (handleSubmit_receive
        (Replied \<lparr>answer = ''a'', citations = None,
                  graph_data = Some
                    \<lparr>nodes = [\<lparr>node_id = Some ''n9'', label = None, citation_uuid = None,
                                x_pos = None, y_pos = None, metadata = None\<rparr>],
                     edges = []\<rparr>\<rparr>)
        \<lparr>query = [], language = ''English'', inputLanguageState = ''English'',
         chatMessages = [], isLoading = True,
         currentGraph = Some \<lparr>nodes = [], edges = []\<rparr>\<rparr>)
     = Some \<lparr>nodes = [\<lparr>node_id = Some ''n9'', label = None, citation_uuid = None,
                        x_pos = None, y_pos = None, metadata = None\<rparr>],
             edges = []\<rparr>
   \<and> graphData
       \<lparr>nodes = [\<lparr>node_id = Some ''n9'', label = None, citation_uuid = None,
                   x_pos = None, y_pos = None, metadata = None\<rparr>],
        edges = []\<rparr>
     = Inl TypeError
   \<and> (\<exists>g. graphData
          \<lparr>nodes = [\<lparr>node_id = None, label = Some ''Murder'', citation_uuid = None,
                      x_pos = None, y_pos = None, metadata = None\<rparr>],
           edges = []\<rparr> = Inr g
        \<and> map nodeId (snap_nodes g) = [None])"
proof -
  have a: "currentGraph
     (handleSubmit_receive
        (Replied \<lparr>answer = ''a'', citations = None,
                  graph_data = Some
                    \<lparr>nodes = [\<lparr>node_id = Some ''n9'', label = None, citation_uuid = None,
                                x_pos = None, y_pos = None, metadata = None\<rparr>],
                     edges = []\<rparr>\<rparr>)
        \<lparr>query = [], language = ''English'', inputLanguageState = ''English'',
         chatMessages = [], isLoading = True,
         currentGraph = Some \<lparr>nodes = [], edges = []\<rparr>\<rparr>)
     = Some \<lparr>nodes = [\<lparr>node_id = Some ''n9'', label = None, citation_uuid = None,
                        x_pos = None, y_pos = None, metadata = None\<rparr>],
             edges = []\<rparr>
   \<and> graphData
       \<lparr>nodes = [\<lparr>node_id = Some ''n9'', label = None, citation_uuid = None,
                   x_pos = None, y_pos = None, metadata = None\<rparr>],
        edges = []\<rparr>
     = Inl TypeError"
    using graphData_without_validation
      [of "''a''" None
          "\<lparr>nodes = [\<lparr>node_id = Some ''n9'', label = None, citation_uuid = None,
                      x_pos = None, y_pos = None, metadata = None\<rparr>],
           edges = []\<rparr>"
          "\<lparr>query = [], language = ''English'', inputLanguageState = ''English'',
           chatMessages = [], isLoading = True,
           currentGraph = Some \<lparr>nodes = [], edges = []\<rparr>\<rparr>"]
    by simp
  have b: "\<exists>g. graphData
          \<lparr>nodes = [\<lparr>node_id = None, label = Some ''Murder'', citation_uuid = None,
                      x_pos = None, y_pos = None, metadata = None\<rparr>],
           edges = []\<rparr> = Inr g
        \<and> map nodeId (snap_nodes g) = [None]"
    using graphData_without_validation
      [of "''a''" None
          "\<lparr>nodes = [\<lparr>node_id = None, label = Some ''Murder'', citation_uuid = None,
                      x_pos = None, y_pos = None, metadata = None\<rparr>],
           edges = []\<rparr>"
          "\<lparr>query = [], language = ''English'', inputLanguageState = ''English'',
           chatMessages = [], isLoading = True, currentGraph = None\<rparr>"]
    by simp
  show ?thesis using a b by simp
qed

text \<open>
  Claim C3, as stated, fails: a payload whose only node has no id is built into a
  snapshot all the same, and the reply that carries it replaces the payload that was on
  display.
\<close>

theorem graphData_missing_id_accepted:
  "graphData
     \<lparr>nodes = [\<lparr>node_id = None, label = Some ''Theft'', citation_uuid = None,
                 x_pos = None, y_pos = None, metadata = None\<rparr>],
      edges = []\<rparr>
   = Inr \<lparr>snap_nodes = [\<lparr>nodeId = None, name = ''Theft'', nodeType = Concept,
                           citationUuid = None, nodeTooltip = None, isCited = None\<rparr>],
          links = []\<rparr>
   \<and> currentGraph
       (handleSubmit_receive
          (Replied \<lparr>answer = ''a'', citations = None,
                    graph_data = Some
                      \<lparr>nodes = [\<lparr>node_id = None, label = Some ''Theft'', citation_uuid = None,
                                  x_pos = None, y_pos = None, metadata = None\<rparr>],
                       edges = []\<rparr>\<rparr>)
          \<lparr>query = [], language = ''English'', inputLanguageState = ''English'',
           chatMessages = [], isLoading = True,
           currentGraph = Some
             \<lparr>nodes = [\<lparr>node_id = Some ''n1'', label = Some ''IPC 302'', citation_uuid = None,
                         x_pos = None, y_pos = None, metadata = None\<rparr>],
              edges = []\<rparr>\<rparr>)
     = Some \<lparr>nodes = [\<lparr>node_id = None, label = Some ''Theft'', citation_uuid = None,
                        x_pos = None, y_pos = None, metadata = None\<rparr>],
             edges = []\<rparr>"
proof -
  have t: "getNodeType ''Theft'' = Concept" by code_simp
  show ?thesis
    by (simp add: graphData_def buildNode_def handleSubmit_receive_def t)
qed

section \<open>The payload loader\<close>

lemma currentGraph_receive:
  "currentGraph (handleSubmit_receive r st)
     = (if payloads [r] = [] then currentGraph st else Some (last (payloads [r])))"
  by (cases r) (auto simp: handleSubmit_receive_def split: option.splits)

lemma payloads_append: "payloads (rs @ rs') = payloads rs @ payloads rs'"
  by (induction rs rule: payloads.induct) (auto split: option.splits)

lemma receiveAll_snoc:
  "receiveAll (rs @ [r]) st = handleSubmit_receive r (receiveAll rs st)"
  by (simp add: receiveAll_def)

text \<open>
  Claim C4, as amended. A request carries the query, the flag for graph data and the
  two language fields, and nothing else: no sequence token. Replies are applied in their
  order of arrival: after any sequence of replies the payload on display is that of the
  last reply that carried one, whichever request it answers, and the previous payload if
  no reply carried one.
\<close>

theorem receiveAll_last_arrival_wins:
  "currentGraph (receiveAll rs st)
     = (if payloads rs = [] then currentGraph st else Some (last (payloads rs)))
   \<and> snd (handleSubmit_send st)
     = (if trim (query st) = [] then None
        else Some \<lparr>req_query = query st, include_graph_data = True,
                   req_language = language st,
                   input_language = (if inputLanguageState st = ''Native'' then language st
                                     else ''English'')\<rparr>)"
proof
  show "currentGraph (receiveAll rs st)
     = (if payloads rs = [] then currentGraph st else Some (last (payloads rs)))"
  proof (induction rs rule: rev_induct)
    case Nil
    then show ?case by (simp add: receiveAll_def)
  next
    case (snoc r rs)
    then show ?case
      by (simp add: receiveAll_snoc currentGraph_receive payloads_append)
  qed
next
  show "snd (handleSubmit_send st)
     = (if trim (query st) = [] then None
        else Some \<lparr>req_query = query st, include_graph_data = True,
                   req_language = language st,
                   input_language = (if inputLanguageState st = ''Native'' then language st
                                     else ''English'')\<rparr>)"
    by (simp add: handleSubmit_send_def)
qed

theorem receiveAll_last_arrival_wins_witness:
  "currentGraph
     (receiveAll
        [Replied \<lparr>answer = ''a1'', citations = None,
                  graph_data = Some \<lparr>nodes = [], edges = []\<rparr>\<rparr>,
         Rejected,
         Replied \<lparr>answer = ''a2'', citations = None, graph_data = None\<rparr>]
        \<lparr>query = [], language = ''English'', inputLanguageState = ''English'',
         chatMessages = [], isLoading = True, currentGraph = None\<rparr>)
   = Some \<lparr>nodes = [], edges = []\<rparr>"
  using receiveAll_last_arrival_wins
    [of "[Replied \<lparr>answer = ''a1'', citations = None,
                  graph_data = Some \<lparr>nodes = [], edges = []\<rparr>\<rparr>,
         Rejected,
         Replied \<lparr>answer = ''a2'', citations = None, graph_data = None\<rparr>]"
        "\<lparr>query = [], language = ''English'', inputLanguageState = ''English'',
         chatMessages = [], isLoading = True, currentGraph = None\<rparr>"]
  by simp

text \<open>
  Claim C4, as stated, fails. Two queries are submitted one after the other
  (\<open>handleSubmit\<close> does not test \<open>isLoading\<close>; only the form's button does); neither
  request carries a token. The reply to the second arrives first and the reply to the
  first, superseded one arrives last: the payload of the superseded reply is then the one
  on display.
\<close>

theorem stale_reply_overwrites:
  "snd (handleSubmit_send
          \<lparr>query = ''first'', language = ''English'', inputLanguageState = ''English'',
           chatMessages = [], isLoading = False, currentGraph = None\<rparr>)
     = Some \<lparr>req_query = ''first'', include_graph_data = True, req_language = ''English'',
             input_language = ''English''\<rparr>
   \<and> snd (handleSubmit_send
          ((fst (handleSubmit_send
                  \<lparr>query = ''first'', language = ''English'', inputLanguageState = ''English'',
                   chatMessages = [], isLoading = False, currentGraph = None\<rparr>))
           \<lparr>query := ''second''\<rparr>))
     = Some \<lparr>req_query = ''second'', include_graph_data = True, req_language = ''English'',
             input_language = ''English''\<rparr>
   \<and> currentGraph
       (receiveAll
          [Replied \<lparr>answer = ''on the second'', citations = None,
                    graph_data = Some \<lparr>nodes = [], edges = []\<rparr>\<rparr>,
           Replied \<lparr>answer = ''on the first'', citations = None,
                    graph_data = Some
                      \<lparr>nodes = [\<lparr>node_id = Some ''n1'', label = Some ''first'',
                                  citation_uuid = None, x_pos = None, y_pos = None,
                                  metadata = None\<rparr>],
                       edges = []\<rparr>\<rparr>]
          (fst (handleSubmit_send
                 ((fst (handleSubmit_send
                         \<lparr>query = ''first'', language = ''English'',
                          inputLanguageState = ''English'', chatMessages = [],
                          isLoading = False, currentGraph = None\<rparr>))
                  \<lparr>query := ''second''\<rparr>))))
     = Some \<lparr>nodes = [\<lparr>node_id = Some ''n1'', label = Some ''first'', citation_uuid = None,
                        x_pos = None, y_pos = None, metadata = None\<rparr>],
             edges = []\<rparr>"
  by code_simp

section \<open>Focus\<close>

text \<open>
  Claim C5, as amended. For every focus request with a non-empty id, once the graph
  handle is mounted and the payload has a node with that id (the lookup is by id alone),
  the effect calls \<open>centerAt\<close> with the node's coordinates and 1000 ms and then, in the
  same run and without waiting for the centering to end, \<open>zoom\<close> with factor 6 and the
  strictly longer 2000 ms. These are the only two calls.
\<close>

theorem autoFocus_found:
  assumes "find (\<lambda>n. node_id n = Some f) (nodes data) = Some node" and "f \<noteq> []"
  shows "autoFocus (Some f) data (Some calls)
           = Some (calls @ [CenterAt (x_pos node) (y_pos node) 1000, Zoom 6 2000])
         \<and> (1000 :: nat) < 2000"
  using assms by (simp add: autoFocus_def)

theorem autoFocus_found_witness:
  "autoFocus (Some ''n1'')
     \<lparr>nodes = [\<lparr>node_id = Some ''n1'', label = Some ''IPC 302'', citation_uuid = Some ''c1'',
                 x_pos = Some 3, y_pos = Some 4, metadata = None\<rparr>],
      edges = []\<rparr>
     (Some [])
   = Some [CenterAt (Some 3) (Some 4) 1000, Zoom 6 2000]"
proof -
  have h: "find (\<lambda>n. node_id n = Some ''n1'')
             (nodes \<lparr>nodes = [\<lparr>node_id = Some ''n1'', label = Some ''IPC 302'',
                                 citation_uuid = Some ''c1'', x_pos = Some 3, y_pos = Some 4,
                                 metadata = None\<rparr>],
                      edges = []\<rparr>)
           = Some \<lparr>node_id = Some ''n1'', label = Some ''IPC 302'', citation_uuid = Some ''c1'',
                   x_pos = Some 3, y_pos = Some 4, metadata = None\<rparr>"
    by simp
  have n: "''n1'' \<noteq> []" by simp
  show ?thesis
    using autoFocus_found [OF h n, of "[]"] by simp
qed

text \<open>
  Claim C5, as stated, fails. After the one run of the effect, before any animation
  can have completed, the handle has already received the zoom call; the state machine of
  the specification is in Centering at that point and has started the centering only.
\<close>

theorem autoFocus_zooms_at_once:
  "autoFocus (Some ''n1'')
     \<lparr>nodes = [\<lparr>node_id = Some ''n1'', label = Some ''IPC 302'', citation_uuid = Some ''c1'',
                 x_pos = Some 3, y_pos = Some 4, metadata = None\<rparr>],
      edges = []\<rparr>
     (Some [])
   = Some [CenterAt (Some 3) (Some 4) 1000, Zoom 6 2000]
   \<and> spec_focus ''n1''
     \<lparr>nodes = [\<lparr>node_id = Some ''n1'', label = Some ''IPC 302'', citation_uuid = Some ''c1'',
                 x_pos = Some 3, y_pos = Some 4, metadata = None\<rparr>],
      edges = []\<rparr>
     \<lparr>phase = Idle, started = []\<rparr>
   = \<lparr>phase = Centering, started = [CenterAt (Some 3) (Some 4) 1000]\<rparr>
   \<and> spec_animation_done \<lparr>phase = Centering, started = [CenterAt (Some 3) (Some 4) 1000]\<rparr>
   = \<lparr>phase = Zooming, started = [CenterAt (Some 3) (Some 4) 1000, Zoom 6 2000]\<rparr>"
  by (simp add: autoFocus_def spec_focus_def spec_animation_done_def)

text \<open>
  Claim C6. A focus request for an id that no node of the current payload has, neither
  as its id nor as its citation uuid, changes nothing: the handle receives no call (so no
  centering starts) and nothing is raised. This holds whether or not the handle is
  mounted, and also on an empty payload.
\<close>

theorem autoFocus_missing_is_noop:
  assumes "\<forall>n \<in> set (nodes data). citation_uuid n \<noteq> Some f \<and> node_id n \<noteq> Some f"
  shows "autoFocus (Some f) data fgRef = fgRef"
proof -
  from assms have "find (\<lambda>n. node_id n = Some f) (nodes data) = None"
    by (simp add: find_None_iff)
  then show ?thesis
    by (simp add: autoFocus_def split: option.splits)
qed

theorem autoFocus_missing_is_noop_witness:
  "autoFocus (Some ''missing-id'') \<lparr>nodes = [], edges = []\<rparr> (Some []) = Some []
   \<and> autoFocus (Some ''missing-id'')
       \<lparr>nodes = [\<lparr>node_id = Some ''n1'', label = Some ''IPC 302'', citation_uuid = Some ''c1'',
                   x_pos = Some 3, y_pos = Some 4, metadata = None\<rparr>],
        edges = []\<rparr>
       (Some [Zoom 2 10])
     = Some [Zoom 2 10]"
proof -
  have a: "\<forall>n \<in> set (nodes \<lparr>nodes = [], edges = []\<rparr>).
             citation_uuid n \<noteq> Some ''missing-id'' \<and> node_id n \<noteq> Some ''missing-id''"
    by simp
  have b: "\<forall>n \<in> set (nodes
              \<lparr>nodes = [\<lparr>node_id = Some ''n1'', label = Some ''IPC 302'',
                          citation_uuid = Some ''c1'', x_pos = Some 3, y_pos = Some 4,
                          metadata = None\<rparr>],
               edges = []\<rparr>).
             citation_uuid n \<noteq> Some ''missing-id'' \<and> node_id n \<noteq> Some ''missing-id''"
    by simp
  show ?thesis
    using autoFocus_missing_is_noop [OF a, of "Some []"]
      autoFocus_missing_is_noop [OF b, of "Some [Zoom 2 10]"]
    by simp
qed

section \<open>The render engine\<close>

text \<open>
  The opacity policy on a node that has a non-empty id, in the modes IPC and BNS: when
  the hover state is that id the node has opacity 1, whatever the filter; otherwise a
  node whose name contains the other mode's marker (BNS or Bharatiya in mode IPC, IPC in
  mode BNS) has opacity 0.1, below the threshold 0.15, and every other node has
  opacity 1.
\<close>

lemma nodeOpacity_with_id:
  assumes "mode = ''IPC'' \<or> mode = ''BNS''" and "nodeId node = Some i" and "i \<noteq> []"
  shows "(h = Some i \<longrightarrow> nodeOpacity (Some mode) h node = 1)
         \<and> (h \<noteq> Some i
              \<and> ((mode = ''IPC''
                     \<and> (sublist ''BNS'' (name node) \<or> sublist ''Bharatiya'' (name node)))
                  \<or> (mode = ''BNS'' \<and> sublist ''IPC'' (name node)))
            \<longrightarrow> nodeOpacity (Some mode) h node = 0.1
                \<and> nodeOpacity (Some mode) h node \<le> 0.15)
         \<and> (h \<noteq> Some i
              \<and> \<not> ((mode = ''IPC''
                     \<and> (sublist ''BNS'' (name node) \<or> sublist ''Bharatiya'' (name node)))
                  \<or> (mode = ''BNS'' \<and> sublist ''IPC'' (name node)))
            \<longrightarrow> nodeOpacity (Some mode) h node = 1)"
proof -
  have hov: "isHovered h node = (h = Some i)"
    using assms(2,3) by (auto simp: isHovered_def split: option.splits)
  have ne: "''IPC'' \<noteq> ''BNS''" "''IPC'' \<noteq> ''Compare''" "''BNS'' \<noteq> ''Compare''"
    by simp_all
  from assms(1) show ?thesis
  proof
    assume "mode = ''IPC''"
    then show ?thesis
      unfolding nodeOpacity_def Let_def hov includes_sublist using ne by auto
  next
    assume "mode = ''BNS''"
    then show ?thesis
      unfolding nodeOpacity_def Let_def hov includes_sublist using ne by auto
  qed
qed

lemma nodeOpacity_with_id_example:
  "nodeOpacity (Some ''IPC'') (Some ''n2'')
     \<lparr>nodeId = Some ''n2'', name = ''BNS 103'', nodeType = Law, citationUuid = None,
      nodeTooltip = None, isCited = None\<rparr> = 1
   \<and> nodeOpacity (Some ''IPC'') None
     \<lparr>nodeId = Some ''n2'', name = ''BNS 103'', nodeType = Law, citationUuid = None,
      nodeTooltip = None, isCited = None\<rparr> = 0.1
   \<and> nodeOpacity (Some ''IPC'') None
     \<lparr>nodeId = Some ''n1'', name = ''IPC 302'', nodeType = Concept, citationUuid = None,
      nodeTooltip = None, isCited = None\<rparr> = 1"
proof -
  have m: "''IPC'' = ''IPC'' \<or> ''IPC'' = ''BNS''" by simp
  have n2: "''n2'' \<noteq> []" and n1: "''n1'' \<noteq> []" by simp_all
  have s1: "sublist ''BNS'' ''BNS 103''" by code_simp
  have s2: "\<not> sublist ''BNS'' ''IPC 302''" "\<not> sublist ''Bharatiya'' ''IPC 302''"
    by code_simp+
  have ne: "''IPC'' \<noteq> ''BNS''" by simp
  have a: "nodeOpacity (Some ''IPC'') (Some ''n2'')
     \<lparr>nodeId = Some ''n2'', name = ''BNS 103'', nodeType = Law, citationUuid = None,
      nodeTooltip = None, isCited = None\<rparr> = 1"
    using nodeOpacity_with_id [OF m _ n2, of
        "\<lparr>nodeId = Some ''n2'', name = ''BNS 103'', nodeType = Law, citationUuid = None,
          nodeTooltip = None, isCited = None\<rparr>" "Some ''n2''"]
    by simp
  have b: "nodeOpacity (Some ''IPC'') None
     \<lparr>nodeId = Some ''n2'', name = ''BNS 103'', nodeType = Law, citationUuid = None,
      nodeTooltip = None, isCited = None\<rparr> = 0.1"
    using s1 nodeOpacity_with_id [OF m _ n2, of
        "\<lparr>nodeId = Some ''n2'', name = ''BNS 103'', nodeType = Law, citationUuid = None,
          nodeTooltip = None, isCited = None\<rparr>" None]
    by simp
  have c: "nodeOpacity (Some ''IPC'') None
     \<lparr>nodeId = Some ''n1'', name = ''IPC 302'', nodeType = Concept, citationUuid = None,
      nodeTooltip = None, isCited = None\<rparr> = 1"
    using s2 ne nodeOpacity_with_id [OF m _ n1, of
        "\<lparr>nodeId = Some ''n1'', name = ''IPC 302'', nodeType = Concept, citationUuid = None,
          nodeTooltip = None, isCited = None\<rparr>" None]
    by simp
  show ?thesis using a b c by simp
qed

text \<open>
  Claim C8. The hovered node is to have full opacity whatever the filter, and the
  source says so itself (\<open>Always show hovered node fully\<close>). The code misses this on a
  node whose id is the empty string: hovering it stores the empty string as the hover
  state, which the guard \<open>hoveredNode && hoveredNode === node.id\<close> takes for no hover at
  all (the tooltip test of the same function has no such guard). In mode IPC such a
  hovered node named after the other regime is drawn at opacity 0.1.
\<close>

theorem hovered_node_with_empty_id_stays_dim:
  "handleNodeHover
     (Some \<lparr>nodeId = Some [], name = ''BNS 103'', nodeType = Law, citationUuid = None,
            nodeTooltip = None, isCited = None\<rparr>) = Some []
   \<and> nodeOpacity (Some ''IPC'') (Some [])
     \<lparr>nodeId = Some [], name = ''BNS 103'', nodeType = Law, citationUuid = None,
      nodeTooltip = None, isCited = None\<rparr> = 0.1"
proof -
  have s: "includes_str ''BNS 103'' ''BNS''" by code_simp
  show ?thesis
    by (simp add: handleNodeHover_def nodeOpacity_def isHovered_def s)
qed

section \<open>The click handler\<close>

text \<open>
  Claim C10. A click on a node publishes to the store only when the node carries a
  citation uuid: if the active id differs after the click, it is that (non-empty) uuid. A
  click on a node without one leaves the whole store as it was, the active id neither
  overwritten nor cleared; and no click changes anything of the store but the active id.
\<close>

theorem handleNodeClick_frame:
  "(citationUuid node = None \<longrightarrow> handleNodeClick node st = st)
   \<and> AppState.more (handleNodeClick node st) = AppState.more st
   \<and> (activeNodeId (handleNodeClick node st) \<noteq> activeNodeId st
        \<longrightarrow> citationUuid node \<noteq> None \<and> citationUuid node \<noteq> Some []
            \<and> activeNodeId (handleNodeClick node st) = citationUuid node)"
  by (auto simp: handleNodeClick_def setActiveNodeId_def split: option.splits)

theorem handleNodeClick_frame_witness:
  "handleNodeClick
     \<lparr>nodeId = Some ''n1'', name = ''IPC 302'', nodeType = Concept, citationUuid = None,
      nodeTooltip = None, isCited = None\<rparr>
     \<lparr>activeNodeId = Some ''c1'', \<dots> = True\<rparr>
   = \<lparr>activeNodeId = Some ''c1'', \<dots> = True\<rparr>
   \<and> handleNodeClick
     \<lparr>nodeId = Some ''n2'', name = ''BNS 103'', nodeType = Law, citationUuid = Some ''c2'',
      nodeTooltip = None, isCited = None\<rparr>
     \<lparr>activeNodeId = Some ''c1'', \<dots> = True\<rparr>
   = \<lparr>activeNodeId = Some ''c2'', \<dots> = True\<rparr>"
proof -
  have a: "handleNodeClick
     \<lparr>nodeId = Some ''n1'', name = ''IPC 302'', nodeType = Concept, citationUuid = None,
      nodeTooltip = None, isCited = None\<rparr>
     \<lparr>activeNodeId = Some ''c1'', \<dots> = True\<rparr>
   = \<lparr>activeNodeId = Some ''c1'', \<dots> = True\<rparr>"
    using handleNodeClick_frame
      [of "\<lparr>nodeId = Some ''n1'', name = ''IPC 302'', nodeType = Concept, citationUuid = None,
            nodeTooltip = None, isCited = None\<rparr>"
          "\<lparr>activeNodeId = Some ''c1'', \<dots> = True\<rparr>"]
    by simp
  have b: "handleNodeClick
     \<lparr>nodeId = Some ''n2'', name = ''BNS 103'', nodeType = Law, citationUuid = Some ''c2'',
      nodeTooltip = None, isCited = None\<rparr>
     \<lparr>activeNodeId = Some ''c1'', \<dots> = True\<rparr>
   = \<lparr>activeNodeId = Some ''c2'', \<dots> = True\<rparr>"
    by (simp add: handleNodeClick_def setActiveNodeId_def)
  show ?thesis using a b by simp
qed

end
